theory Spec2Isabelle
  imports Complex_Main "HOL-Library.AList" "HOL-Library.Log_Nat" "HOL-Library.Word"
begin

section \<open>Python values and dictionaries\<close>

text \<open>
  The persisted overlay records and the free-form \<open>data\<close> mapping of an overlay hold
  dynamically typed Python values. The fragment used by the overlay code is: \<open>None\<close>,
  strings, integers, sequences (tuples and lists, which the code only subscripts) and
  dictionaries with string keys. A dictionary is an association list in insertion order.
\<close>

datatype pyval =
    PNone
  | PStr string
  | PInt int
  | PSeq "pyval list"
  | PDict "(string \<times> pyval) list"

type_synonym pydict = "(string \<times> pyval) list"

datatype error = TypeError | AttributeError | IndexError | KeyError | OverflowError | CvError

text \<open>\<open>d[k] = v\<close> on a dictionary: replace in place, or append a new key.\<close>

definition dict_set :: "pydict \<Rightarrow> string \<Rightarrow> pyval \<Rightarrow> pydict" where
  "dict_set d k v = AList.update k v d"

text \<open>\<open>d.update({k1: v1, ...})\<close>: the entries are stored one after the other.\<close>

definition dict_update :: "pydict \<Rightarrow> (string \<times> pyval) list \<Rightarrow> pydict" where
  "dict_update d kvs = fold (\<lambda>(k, v) acc. dict_set acc k v) kvs d"

text \<open>\<open>d.get(k)\<close> on a dictionary object: the value, or \<open>None\<close>.\<close>

definition dict_get :: "pydict \<Rightarrow> string \<Rightarrow> pyval" where
  "dict_get d k = (case map_of d k of None \<Rightarrow> PNone | Some v \<Rightarrow> v)"

text \<open>
  \<open>v.get(k, default)\<close> on an arbitrary value: only dictionaries have the method, every
  other value raises \<open>AttributeError\<close>.
\<close>

definition py_get :: "pyval \<Rightarrow> string \<Rightarrow> pyval \<Rightarrow> error + pyval" where
  "py_get v k dflt =
     (case v of
        PDict d \<Rightarrow> Inr (case map_of d k of None \<Rightarrow> dflt | Some x \<Rightarrow> x)
      | _ \<Rightarrow> Inl AttributeError)"

text \<open>
  \<open>v[i]\<close> for the literal indices \<open>0\<close> and \<open>1\<close>: sequences and strings are subscriptable
  (out of range raises \<open>IndexError\<close>), a dictionary with string keys has no key \<open>i\<close>,
  \<open>None\<close> and integers are not subscriptable.
\<close>

definition py_index :: "pyval \<Rightarrow> nat \<Rightarrow> error + pyval" where
  "py_index v i =
     (case v of
        PSeq xs \<Rightarrow> (if i < length xs then Inr (xs ! i) else Inl IndexError)
      | PStr s \<Rightarrow> (if i < length s then Inr (PStr [s ! i]) else Inl IndexError)
      | PDict d \<Rightarrow> Inl KeyError
      | _ \<Rightarrow> Inl TypeError)"

section \<open>Points\<close>

type_synonym qpoint = "int \<times> int"

text \<open>
  \<open>QPoint(x, y)\<close> accepts two integers in the range of a C \<open>int\<close>: the binding
  rejects a value of another type with \<open>TypeError\<close> and an integer out of range with
  \<open>OverflowError\<close>.
\<close>

definition QPoint :: "pyval \<Rightarrow> pyval \<Rightarrow> error + qpoint" where
  "QPoint a b =
     (case (a, b) of
        (PInt x, PInt y) \<Rightarrow>
          (if - (2 ^ 31) \<le> x \<and> x < 2 ^ 31 \<and> - (2 ^ 31) \<le> y \<and> y < 2 ^ 31
           then Inr (x, y) else Inl OverflowError)
      | _ \<Rightarrow> Inl TypeError)"

text \<open>The tuple \<open>(p.x(), p.y())\<close> written into a record.\<close>

definition point_tuple :: "qpoint \<Rightarrow> pyval" where
  "point_tuple p = PSeq [PInt (fst p), PInt (snd p)]"

text \<open>Truth value of a \<open>QPoint\<close> object: a null point (both coordinates 0) is false.\<close>

definition qpoint_bool :: "qpoint \<Rightarrow> bool" where
  "qpoint_bool p = (p \<noteq> (0, 0))"

section \<open>Overlays\<close>

text \<open>
  The \<open>data\<close> attribute of an overlay is a reference to a dictionary object. The
  dictionaries live in an object store; an address is an index into it, and a new
  dictionary is allocated at the end.
\<close>

type_synonym addr = nat
type_synonym heap = "pydict list"

definition alloc :: "heap \<Rightarrow> pydict \<Rightarrow> addr \<times> heap" where
  "alloc h d = (length h, h @ [d])"

text \<open>
  The three overlay classes. \<open>overlay_id\<close> is the attribute \<open>id\<close>, \<open>note_text\<close> the
  attribute \<open>text\<close>. The attributes \<open>text\<close> and \<open>color\<close> hold whatever value the
  constructor was given.
\<close>

datatype overlay =
    NoteOverlay (overlay_id: string) (data: addr)
      (position: qpoint) (note_text: pyval) (color: pyval)
  | RulerOverlay (overlay_id: string) (data: addr)
      (start_point: qpoint) (end_point: qpoint) (color: pyval)
  | RegionOfInterestOverlay (overlay_id: string) (data: addr)
      (top_left: qpoint) (bottom_right: qpoint) (color: pyval)

text \<open>The attribute \<open>type\<close>, fixed by each subclass constructor.\<close>

fun overlay_type :: "overlay \<Rightarrow> string" where
  "overlay_type (NoteOverlay _ _ _ _ _) = ''Note''"
| "overlay_type (RulerOverlay _ _ _ _ _) = ''Ruler''"
| "overlay_type (RegionOfInterestOverlay _ _ _ _ _) = ''ROI''"

text \<open>
  Constructors. \<open>now\<close> is the time stamp \<open>datetime.now().strftime(...)[:-3]\<close> read by
  \<open>AnalysisOverlay.__init__\<close>; \<open>dat\<close> is the optional \<open>data\<close> argument: \<open>None\<close>
  allocates a new empty dictionary.
\<close>

definition init_data :: "heap \<Rightarrow> addr option \<Rightarrow> addr \<times> heap" where
  "init_data h dat = (case dat of Some a \<Rightarrow> (a, h) | None \<Rightarrow> alloc h [])"

definition new_NoteOverlay ::
  "string \<Rightarrow> heap \<Rightarrow> qpoint \<Rightarrow> pyval \<Rightarrow> pyval \<Rightarrow> addr option \<Rightarrow> overlay \<times> heap" where
  "new_NoteOverlay now h pos txt col dat =
     (let (a, h') = init_data h dat in (NoteOverlay now a pos txt col, h'))"

definition new_RulerOverlay ::
  "string \<Rightarrow> heap \<Rightarrow> qpoint \<Rightarrow> qpoint \<Rightarrow> pyval \<Rightarrow> addr option \<Rightarrow> overlay \<times> heap" where
  "new_RulerOverlay now h p q col dat =
     (let (a, h') = init_data h dat in (RulerOverlay now a p q col, h'))"

definition new_RegionOfInterestOverlay ::
  "string \<Rightarrow> heap \<Rightarrow> qpoint \<Rightarrow> qpoint \<Rightarrow> pyval \<Rightarrow> addr option \<Rightarrow> overlay \<times> heap" where
  "new_RegionOfInterestOverlay now h p q col dat =
     (let (a, h') = init_data h dat in (RegionOfInterestOverlay now a p q col, h'))"

subsection \<open>Serialization: \<open>to_dict\<close>\<close>

text \<open>
  The dictionary returned by \<open>to_dict\<close> has the keys \<open>id\<close>, \<open>type\<close> and \<open>data\<close>; its
  \<open>data\<close> entry is the reference \<open>self.data\<close> itself, not a copy.
\<close>

record overlay_record =
  rec_id :: string
  rec_type :: string
  rec_data :: addr

definition base_to_dict :: "overlay \<Rightarrow> overlay_record" where
  "base_to_dict ov = \<lparr>rec_id = overlay_id ov, rec_type = overlay_type ov, rec_data = data ov\<rparr>"

text \<open>
  Each subclass calls the base method and then updates \<open>d['data']\<close> in place. In
  \<open>RulerOverlay.to_dict\<close> the argument of \<open>update\<close> reads \<open>self.data.get('note')\<close>
  before the update is applied.
\<close>

fun to_dict_entries :: "heap \<Rightarrow> overlay \<Rightarrow> (string \<times> pyval) list" where
  "to_dict_entries h (NoteOverlay i a pos txt col) =
     [(''position'', point_tuple pos), (''text'', txt), (''color'', col)]"
| "to_dict_entries h (RulerOverlay i a p q col) =
     [(''start_point'', point_tuple p), (''end_point'', point_tuple q), (''color'', col),
      (''note'', dict_get (h ! a) ''note'')]"
| "to_dict_entries h (RegionOfInterestOverlay i a p q col) =
     [(''top_left'', point_tuple p), (''bottom_right'', point_tuple q), (''color'', col)]"

definition to_dict :: "heap \<Rightarrow> overlay \<Rightarrow> overlay_record \<times> heap" where
  "to_dict h ov =
     (let d = base_to_dict ov
      in (d, h[rec_data d := dict_update (h ! rec_data d) (to_dict_entries h ov)]))"

text \<open>
  \<open>closeEvent\<close> and \<open>export_overlays\<close>: \<open>to_dict\<close> is called on every element of the
  store, in order. An element that is \<open>None\<close> has no such method.
\<close>

fun serialize :: "heap \<Rightarrow> overlay option list \<Rightarrow> error + (overlay_record list \<times> heap)" where
  "serialize h [] = Inr ([], h)"
| "serialize h (None # ovs) = Inl AttributeError"
| "serialize h (Some ov # ovs) =
     (let (d, h1) = to_dict h ov
      in case serialize h1 ovs of
           Inl e \<Rightarrow> Inl e
         | Inr (ds, h2) \<Rightarrow> Inr (d # ds, h2))"

text \<open>
  What the settings store or the JSON file keeps of a record: the three entries, with
  the contents the \<open>data\<close> dictionary has at the time of writing.
\<close>

definition persist :: "heap \<Rightarrow> overlay_record \<Rightarrow> pyval" where
  "persist h d =
     PDict [(''id'', PStr (rec_id d)), (''type'', PStr (rec_type d)),
            (''data'', PDict (h ! rec_data d))]"

subsection \<open>Deserialization: \<open>from_dict\<close>\<close>

text \<open>The two subscripts and the \<open>QPoint\<close> call of \<open>QPoint(t[0], t[1])\<close>.\<close>

definition point_of :: "pyval \<Rightarrow> error + qpoint" where
  "point_of t =
     (case py_index t 0 of
        Inl e \<Rightarrow> Inl e
      | Inr a \<Rightarrow> (case py_index t 1 of Inl e \<Rightarrow> Inl e | Inr b \<Rightarrow> QPoint a b))"

text \<open>
  The loaded \<open>data\<close> value becomes the \<open>data\<close> attribute of the new overlay. Its
  \<open>.get\<close> calls require a dictionary, which is then an object of the store.
\<close>

definition data_dict :: "pyval \<Rightarrow> error + pydict" where
  "data_dict d =
     (case py_get d ''data'' (PDict []) of
        Inl e \<Rightarrow> Inl e
      | Inr (PDict kvs) \<Rightarrow> Inr kvs
      | Inr _ \<Rightarrow> Inl AttributeError)"

definition NoteOverlay_from_dict :: "string \<Rightarrow> heap \<Rightarrow> pyval \<Rightarrow> error + (overlay \<times> heap)" where
  "NoteOverlay_from_dict now h d =
     (case data_dict d of
        Inl e \<Rightarrow> Inl e
      | Inr kvs \<Rightarrow>
         (case point_of (dict_get kvs ''position'') of
            Inl e \<Rightarrow> Inl e
          | Inr pos \<Rightarrow>
              (let (a, h1) = alloc h kvs
               in Inr (new_NoteOverlay now h1 pos (dict_get kvs ''text'')
                         (dict_get kvs ''color'') (Some a)))))"

definition RulerOverlay_from_dict :: "string \<Rightarrow> heap \<Rightarrow> pyval \<Rightarrow> error + (overlay \<times> heap)" where
  "RulerOverlay_from_dict now h d =
     (case data_dict d of
        Inl e \<Rightarrow> Inl e
      | Inr kvs \<Rightarrow>
         (case point_of (dict_get kvs ''start_point'') of
            Inl e \<Rightarrow> Inl e
          | Inr p \<Rightarrow>
             (case point_of (dict_get kvs ''end_point'') of
                Inl e \<Rightarrow> Inl e
              | Inr q \<Rightarrow>
                  (let (a, h1) = alloc h kvs
                   in Inr (new_RulerOverlay now h1 p q (dict_get kvs ''color'') (Some a))))))"

definition RegionOfInterestOverlay_from_dict ::
  "string \<Rightarrow> heap \<Rightarrow> pyval \<Rightarrow> error + (overlay \<times> heap)" where
  "RegionOfInterestOverlay_from_dict now h d =
     (case data_dict d of
        Inl e \<Rightarrow> Inl e
      | Inr kvs \<Rightarrow>
         (case point_of (dict_get kvs ''top_left'') of
            Inl e \<Rightarrow> Inl e
          | Inr p \<Rightarrow>
             (case point_of (dict_get kvs ''bottom_right'') of
                Inl e \<Rightarrow> Inl e
              | Inr q \<Rightarrow>
                  (let (a, h1) = alloc h kvs
                   in Inr (new_RegionOfInterestOverlay now h1 p q
                             (dict_get kvs ''color'') (Some a))))))"

text \<open>
  \<open>AnalysisOverlay.from_dict\<close>: dispatch on \<open>d.get("type")\<close>; any other value gives
  \<open>None\<close>.
\<close>

definition some_overlay :: "error + (overlay \<times> heap) \<Rightarrow> error + (overlay option \<times> heap)" where
  "some_overlay r = (case r of Inl e \<Rightarrow> Inl e | Inr (ov, h) \<Rightarrow> Inr (Some ov, h))"

definition from_dict :: "string \<Rightarrow> heap \<Rightarrow> pyval \<Rightarrow> error + (overlay option \<times> heap)" where
  "from_dict now h d =
     (case py_get d ''type'' PNone of
        Inl e \<Rightarrow> Inl e
      | Inr ty \<Rightarrow>
          if ty = PStr ''Note'' then some_overlay (NoteOverlay_from_dict now h d)
          else if ty = PStr ''Ruler'' then some_overlay (RulerOverlay_from_dict now h d)
          else if ty = PStr ''ROI''
            then some_overlay (RegionOfInterestOverlay_from_dict now h d)
          else Inr (None, h))"

text \<open>
  The overlay loop of \<open>restore_session\<close>: the store starts empty and the result of
  \<open>from_dict\<close> is appended for every record. \<open>clock i\<close> is the time stamp read while
  record \<open>i\<close> is processed. An exception leaves the loop.
\<close>

fun restore_loop ::
  "(nat \<Rightarrow> string) \<Rightarrow> nat \<Rightarrow> heap \<Rightarrow> overlay option list \<Rightarrow> pyval list \<Rightarrow>
     error + (overlay option list \<times> heap)" where
  "restore_loop clock i h acc [] = Inr (acc, h)"
| "restore_loop clock i h acc (d # ds) =
     (case from_dict (clock i) h d of
        Inl e \<Rightarrow> Inl e
      | Inr (ov, h1) \<Rightarrow> restore_loop clock (Suc i) h1 (acc @ [ov]) ds)"

definition restore_session ::
  "(nat \<Rightarrow> string) \<Rightarrow> heap \<Rightarrow> pyval list \<Rightarrow> error + (overlay option list \<times> heap)" where
  "restore_session clock h overlays_data = restore_loop clock 0 h [] overlays_data"

section \<open>Python floats\<close>

text \<open>
  The zoom factor is a Python \<open>float\<close>, an IEEE 754 double. A finite double is a
  rational number, and each arithmetic operation returns the exact result rounded to
  the nearest double, ties to the even significand. \<open>fl64\<close> is this rounding for the
  normal range (53-bit significands; the values of this program are far from overflow
  and underflow). \<open>ilog2 q\<close> is the exponent of a positive rational: the largest
  \<open>e\<close> with \<open>2 ^ e \<le> q\<close>.
\<close>

definition ilog2 :: "rat \<Rightarrow> int" where
  "ilog2 q = (let (n, d) = quotient_of q; k = bitlen n - bitlen d
              in if 2 powi k \<le> q then k else k - 1)"

definition round_half_even :: "rat \<Rightarrow> int" where
  "round_half_even t =
     (let f = \<lfloor>t\<rfloor>; r = t - of_int f
      in if r < 1 / 2 then f else if 1 / 2 < r then f + 1 else if even f then f else f + 1)"

definition fl64 :: "rat \<Rightarrow> rat" where
  "fl64 q = (if q = 0 then 0
             else let ulp = 2 powi (ilog2 \<bar>q\<bar> - 52)
                  in sgn q * of_int (round_half_even (\<bar>q\<bar> / ulp)) * ulp)"

text \<open>\<open>int(f)\<close> on a float truncates toward zero.\<close>

definition py_int :: "rat \<Rightarrow> int" where
  "py_int r = (if 0 \<le> r then \<lfloor>r\<rfloor> else - \<lfloor>- r\<rfloor>)"

section \<open>Images\<close>

text \<open>
  A NumPy array of pixels: \<open>shape[0]\<close> rows, \<open>shape[1]\<close> columns and the elements in
  row-major order. A colour pixel is the triple of its three 8-bit channels, a gray
  pixel one 8-bit value.
\<close>

record 'p mat =
  rows :: nat
  cols :: nat
  elems :: "'p list"

type_synonym pixel = "8 word \<times> 8 word \<times> 8 word"
type_synonym color_image = "pixel mat"
type_synonym gray_image = "8 word mat"

section \<open>The viewer\<close>

text \<open>
  The attributes of \<open>ImageZoomViewer\<close> that the filter pipeline, the coordinate
  conversion and the overlay handlers read or write. \<open>pixmap_set\<close> says whether
  \<open>image_label.pixmap()\<close> is set, \<open>label_origin\<close> is the position of \<open>image_label\<close> in
  the coordinates of the scroll area's viewport, and \<open>objects\<close> is the store of the
  overlays' \<open>data\<close> dictionaries.
\<close>

record viewer =
  original_image :: "color_image option"
  zoom_slider :: int
  enhanced_mode_checkbox :: bool
  contrast_mode :: int
  trace_enhancement_active :: bool
  pixmap_set :: bool
  label_origin :: qpoint
  analysis_mode_active :: bool
  current_analysis_tool :: string
  analysis_overlays :: "overlay option list"
  drawing_overlay :: "overlay option"
  drawing_start_point :: "qpoint option"
  objects :: heap

text \<open>
  \<open>zoom_slider.value()\<close>: the slider is created with minimum 10 and maximum 400, and
  the widget keeps its value in that range.
\<close>

definition zoom_value :: "viewer \<Rightarrow> int" where
  "zoom_value v = max 10 (min 400 (zoom_slider v))"

text \<open>\<open>zoom_slider.value() / 100.0\<close> and \<open>scale_percent / 100.0\<close>.\<close>

definition zoom_factor :: "viewer \<Rightarrow> rat" where
  "zoom_factor v = fl64 (of_int (zoom_value v) / 100)"

subsection \<open>Coordinate conversion\<close>

text \<open>
  \<open>image_label.mapFrom(scroll_area.viewport(), mouse_pos)\<close> translates a position of
  the viewport into the coordinates of the label.
\<close>

definition mapFrom :: "viewer \<Rightarrow> qpoint \<Rightarrow> qpoint" where
  "mapFrom v mouse_pos = (fst mouse_pos - fst (label_origin v), snd mouse_pos - snd (label_origin v))"

definition get_image_coordinates :: "viewer \<Rightarrow> qpoint \<Rightarrow> qpoint option" where
  "get_image_coordinates v mouse_pos =
     (if \<not> pixmap_set v then None
      else
        let label_pos = mapFrom v mouse_pos
        in case original_image v of
             None \<Rightarrow> None
           | Some img \<Rightarrow>
               (let original_width = int (cols img);
                    original_height = int (rows img);
                    image_x = py_int (fl64 (of_int (fst label_pos) / zoom_factor v));
                    image_y = py_int (fl64 (of_int (snd label_pos) / zoom_factor v))
                in if 0 \<le> image_x \<and> image_x < original_width \<and>
                      0 \<le> image_y \<and> image_y < original_height
                   then Some (image_x, image_y)
                   else None))"

text \<open>
  The position at which every \<open>draw\<close> method paints an image-space point:
  \<open>QPoint(int(p.x() * zoom_factor), int(p.y() * zoom_factor))\<close>, in the coordinates of
  the pixmap shown by the label.
\<close>

definition scaled_point :: "rat \<Rightarrow> qpoint \<Rightarrow> qpoint" where
  "scaled_point zf p = (py_int (fl64 (of_int (fst p) * zf)), py_int (fl64 (of_int (snd p) * zf)))"

text \<open>The viewport position of a point of the label.\<close>

definition mapTo :: "viewer \<Rightarrow> qpoint \<Rightarrow> qpoint" where
  "mapTo v label_pos = (fst label_pos + fst (label_origin v), snd label_pos + snd (label_origin v))"

subsection \<open>Overlay handlers\<close>

text \<open>
  Every handler ends its work with a call of \<open>update_zoom\<close>, which repaints the view.
  The repaint reads the overlays and the draft and writes none of the fields above
  except that the label has a pixmap afterwards. It is the last statement of its
  branch, so the fields assigned before it keep their values also when it raises.
\<close>

definition update_zoom :: "viewer \<Rightarrow> viewer" where
  "update_zoom v = (if original_image v = None then v else v\<lparr>pixmap_set := True\<rparr>)"

text \<open>
  The test \<open>self.drawing_overlay and self.drawing_start_point\<close>: an overlay object is
  true, \<open>None\<close> is false, and a point is true unless it is null.
\<close>

definition drawing :: "viewer \<Rightarrow> bool" where
  "drawing v =
     (drawing_overlay v \<noteq> None \<and>
      (case drawing_start_point v of None \<Rightarrow> False | Some p \<Rightarrow> qpoint_bool p))"

text \<open>
  The answers of the modal dialogs are inputs: \<open>text_dialog\<close> is the pair
  \<open>(text, ok)\<close> of \<open>QInputDialog.getText\<close>, \<open>color_dialog\<close> is \<open>None\<close> when the colour
  returned by \<open>QColorDialog.getColor\<close> is not valid and its \<open>name()\<close> otherwise, and
  \<open>now\<close> is the time stamp read by the overlay constructor.
\<close>

definition handle_analysis_mouse_press ::
  "string \<Rightarrow> string \<times> bool \<Rightarrow> string option \<Rightarrow> viewer \<Rightarrow> qpoint \<Rightarrow> viewer" where
  "handle_analysis_mouse_press now text_dialog color_dialog v mouse_pos =
     (case get_image_coordinates v mouse_pos of
        None \<Rightarrow> v
      | Some pos \<Rightarrow>
          if current_analysis_tool v = ''Note'' then
            (let (text, ok) = text_dialog
             in if ok \<and> text \<noteq> [] then
                  (let (note, h) = new_NoteOverlay now (objects v) pos (PStr text)
                                     (PStr ''#00FF00'') None
                   in update_zoom
                        (v\<lparr>analysis_overlays := analysis_overlays v @ [Some note],
                           objects := h\<rparr>))
                else v)
          else if current_analysis_tool v = ''Ruler'' then
            (case color_dialog of
               None \<Rightarrow> v
             | Some name \<Rightarrow>
                 (let (ruler, h) = new_RulerOverlay now (objects v) pos pos (PStr name) None
                  in v\<lparr>drawing_start_point := Some pos, drawing_overlay := Some ruler,
                       objects := h\<rparr>))
          else if current_analysis_tool v = ''ROI'' then
            (let (roi, h) = new_RegionOfInterestOverlay now (objects v) pos pos
                              (PStr ''#0000FF'') None
             in v\<lparr>drawing_start_point := Some pos, drawing_overlay := Some roi,
                  objects := h\<rparr>)
          else v)"

text \<open>The assignment to the free end of the draft; a Note has none.\<close>

fun set_free_end :: "overlay \<Rightarrow> qpoint \<Rightarrow> overlay" where
  "set_free_end (RulerOverlay i a p q col) pos = RulerOverlay i a p pos col"
| "set_free_end (RegionOfInterestOverlay i a p q col) pos = RegionOfInterestOverlay i a p pos col"
| "set_free_end (NoteOverlay i a p txt col) pos = NoteOverlay i a p txt col"

definition handle_analysis_mouse_move :: "viewer \<Rightarrow> qpoint \<Rightarrow> viewer" where
  "handle_analysis_mouse_move v mouse_pos =
     (case get_image_coordinates v mouse_pos of
        None \<Rightarrow> v
      | Some pos \<Rightarrow>
          if drawing v then
            update_zoom (v\<lparr>drawing_overlay := map_option (\<lambda>ov. set_free_end ov pos) (drawing_overlay v)\<rparr>)
          else v)"

text \<open>
  On release a Ruler or ROI draft gets its free end, the note of the dialog is stored
  under \<open>data['note']\<close> when the dialog was accepted with a non-empty text, and the
  draft is appended to the store. A draft of another class is dropped.
\<close>

definition handle_analysis_mouse_release :: "string \<times> bool \<Rightarrow> viewer \<Rightarrow> qpoint \<Rightarrow> viewer" where
  "handle_analysis_mouse_release note_dialog v mouse_pos =
     (if drawing v then
        (case get_image_coordinates v mouse_pos of
           None \<Rightarrow> v
         | Some pos \<Rightarrow>
             (let (note, ok) = note_dialog;
                  v1 = (case drawing_overlay v of
                          Some (RulerOverlay i a p q col) \<Rightarrow>
                            v\<lparr>analysis_overlays :=
                                 analysis_overlays v @ [Some (RulerOverlay i a p pos col)],
                               objects :=
                                 (if ok \<and> note \<noteq> []
                                  then (objects v)[a := dict_set (objects v ! a) ''note'' (PStr note)]
                                  else objects v)\<rparr>
                        | Some (RegionOfInterestOverlay i a p q col) \<Rightarrow>
                            v\<lparr>analysis_overlays :=
                                 analysis_overlays v @ [Some (RegionOfInterestOverlay i a p pos col)],
                               objects :=
                                 (if ok \<and> note \<noteq> []
                                  then (objects v)[a := dict_set (objects v ! a) ''note'' (PStr note)]
                                  else objects v)\<rparr>
                        | _ \<Rightarrow> v)
              in update_zoom (v1\<lparr>drawing_overlay := None, drawing_start_point := None\<rparr>)))
      else v)"

text \<open>
  The right-button branch of \<open>mousePressEvent\<close>: in analysis mode a draft is
  discarded.
\<close>

definition cancel_drawing :: "viewer \<Rightarrow> viewer" where
  "cancel_drawing v =
     (if analysis_mode_active v \<and> drawing_overlay v \<noteq> None
      then update_zoom (v\<lparr>drawing_overlay := None, drawing_start_point := None\<rparr>)
      else v)"

text \<open>
  \<open>toggle_analysis_mode\<close>: \<open>checked\<close> is the state of the button and \<open>tool\<close> the
  current text of the tool selector.
\<close>

definition toggle_analysis_mode :: "bool \<Rightarrow> string \<Rightarrow> viewer \<Rightarrow> viewer" where
  "toggle_analysis_mode checked tool v =
     (if checked
      then v\<lparr>analysis_mode_active := True, current_analysis_tool := tool\<rparr>
      else v\<lparr>analysis_mode_active := False, drawing_overlay := None,
             drawing_start_point := None\<rparr>)"

text \<open>
  The pointer events of the editing session. Outside analysis mode the left button
  pans the view, which is no overlay action.
\<close>

datatype event =
    LeftPress string "string \<times> bool" "string option" qpoint
  | MouseMove qpoint
  | LeftRelease "string \<times> bool" qpoint
  | RightPress
  | ToggleAnalysis bool string

fun step :: "viewer \<Rightarrow> event \<Rightarrow> viewer" where
  "step v (LeftPress now text_dialog color_dialog p) =
     (if analysis_mode_active v
      then handle_analysis_mouse_press now text_dialog color_dialog v p else v)"
| "step v (MouseMove p) =
     (if analysis_mode_active v then handle_analysis_mouse_move v p else v)"
| "step v (LeftRelease note_dialog p) =
     (if analysis_mode_active v then handle_analysis_mouse_release note_dialog v p else v)"
| "step v RightPress = cancel_drawing v"
| "step v (ToggleAnalysis checked tool) = toggle_analysis_mode checked tool v"

definition run :: "viewer \<Rightarrow> event list \<Rightarrow> viewer" where
  "run v evs = foldl step v evs"

subsection \<open>Store operations\<close>

text \<open>
  \<open>delete_overlay\<close>: the index is checked before \<open>del\<close>; no branch raises.
\<close>

definition delete_overlay :: "viewer \<Rightarrow> int \<Rightarrow> error + viewer" where
  "delete_overlay v index =
     (if 0 \<le> index \<and> index < int (length (analysis_overlays v))
      then Inr (update_zoom
                  (v\<lparr>analysis_overlays :=
                       take (nat index) (analysis_overlays v) @
                       drop (Suc (nat index)) (analysis_overlays v)\<rparr>))
      else Inr v)"

text \<open>\<open>clear_all_overlays\<close>: \<open>yes\<close> is the answer of the confirmation box.\<close>

definition clear_all_overlays :: "bool \<Rightarrow> viewer \<Rightarrow> viewer" where
  "clear_all_overlays yes v =
     (if yes then update_zoom (v\<lparr>analysis_overlays := []\<rparr>) else v)"

section \<open>The filter pipeline\<close>

text \<open>
  The image operations are calls into OpenCV and NumPy. The operations whose values
  depend on the library's numerics are parameters of the model: the colour space
  conversions and the scalar multiplication act on one pixel or one channel value,
  and CLAHE, dilation and bilinear resizing give the value of the result at a row
  and a column, so that every result has the shape the library gives it.
\<close>

record cv2_lib =
  BGR2LAB :: "pixel \<Rightarrow> pixel"
  LAB2BGR :: "pixel \<Rightarrow> pixel"
  BGR2HSV :: "pixel \<Rightarrow> pixel"
  HSV2BGR :: "pixel \<Rightarrow> pixel"
  BGR2GRAY :: "pixel \<Rightarrow> 8 word"
  clahe_apply :: "rat \<Rightarrow> nat \<times> nat \<Rightarrow> gray_image \<Rightarrow> nat \<Rightarrow> nat \<Rightarrow> 8 word"
  multiply :: "8 word \<Rightarrow> rat \<Rightarrow> 8 word"
  dilate :: "gray_image \<Rightarrow> nat \<times> nat \<Rightarrow> nat \<Rightarrow> nat \<Rightarrow> 8 word"
  resize_linear :: "color_image \<Rightarrow> nat \<times> nat \<Rightarrow> nat \<Rightarrow> nat \<Rightarrow> pixel"

definition map_mat :: "('a \<Rightarrow> 'b) \<Rightarrow> 'a mat \<Rightarrow> 'b mat" where
  "map_mat f m = \<lparr>rows = rows m, cols = cols m, elems = map f (elems m)\<rparr>"

definition tabulate :: "nat \<Rightarrow> nat \<Rightarrow> (nat \<Rightarrow> nat \<Rightarrow> 'a) \<Rightarrow> 'a mat" where
  "tabulate r c f =
     \<lparr>rows = r, cols = c, elems = concat (map (\<lambda>i. map (f i) [0..<c]) [0..<r])\<rparr>"

text \<open>\<open>cv2.split\<close> and \<open>cv2.merge\<close> on the three channels.\<close>

definition split3 :: "color_image \<Rightarrow> gray_image \<times> gray_image \<times> gray_image" where
  "split3 m = (map_mat fst m, map_mat (\<lambda>p. fst (snd p)) m, map_mat (\<lambda>p. snd (snd p)) m)"

definition merge3 :: "gray_image \<Rightarrow> gray_image \<Rightarrow> gray_image \<Rightarrow> color_image" where
  "merge3 l a b =
     \<lparr>rows = rows l, cols = cols l, elems = zip (elems l) (zip (elems a) (elems b))\<rparr>"

text \<open>\<open>cv2.createCLAHE(clipLimit, tileGridSize).apply(g)\<close>.\<close>

definition clahe :: "cv2_lib \<Rightarrow> rat \<Rightarrow> nat \<times> nat \<Rightarrow> gray_image \<Rightarrow> gray_image" where
  "clahe lib clipLimit tileGridSize g =
     tabulate (rows g) (cols g) (clahe_apply lib clipLimit tileGridSize g)"

text \<open>\<open>np.clip(x, lo, hi)\<close> on an 8-bit value.\<close>

definition np_clip :: "8 word \<Rightarrow> 8 word \<Rightarrow> 8 word \<Rightarrow> 8 word" where
  "np_clip x lo hi = min hi (max lo x)"

text \<open>\<open>cv2.COLOR_GRAY2BGR\<close> copies the gray value into the three channels.\<close>

definition GRAY2BGR :: "gray_image \<Rightarrow> color_image" where
  "GRAY2BGR g = map_mat (\<lambda>x. (x, x, x)) g"

definition bitwise_not :: "gray_image \<Rightarrow> gray_image" where
  "bitwise_not g = map_mat (\<lambda>x. not x) g"

text \<open>\<open>cv2.threshold(g, thresh, maxval, cv2.THRESH_BINARY)\<close>.\<close>

definition threshold_binary :: "gray_image \<Rightarrow> 8 word \<Rightarrow> 8 word \<Rightarrow> gray_image" where
  "threshold_binary g thresh maxval = map_mat (\<lambda>x. if thresh < x then maxval else 0) g"

text \<open>
  The branches \<open>mode == 1\<close> to \<open>mode == 7\<close>, the same statements in \<open>update_zoom\<close>
  and in \<open>export_current_view\<close>. Another value of \<open>mode\<close> matches no branch.
\<close>

definition apply_contrast_mode :: "cv2_lib \<Rightarrow> int \<Rightarrow> color_image \<Rightarrow> color_image" where
  "apply_contrast_mode lib mode img =
     (if mode = 1 then
        (let lab = map_mat (BGR2LAB lib) img;
             (l, a, b) = split3 lab;
             l = clahe lib 3 (8, 8) l;
             lab = merge3 l a b;
             img1 = map_mat (LAB2BGR lib) lab;
             hsv = map_mat (BGR2HSV lib) img1;
             hsv = map_mat (\<lambda>(h, s, v). (h, multiply lib s (13 / 10), v)) hsv;
             hsv = map_mat (\<lambda>(h, s, v). (h, np_clip s 0 255, v)) hsv
         in map_mat (HSV2BGR lib) hsv)
      else if mode = 2 then
        (let lab = map_mat (BGR2LAB lib) img;
             (l, a, b) = split3 lab;
             l = clahe lib 5 (8, 8) l;
             a = map_mat (\<lambda>x. multiply lib x (12 / 10)) a;
             b = map_mat (\<lambda>x. multiply lib x (12 / 10)) b;
             a = map_mat (\<lambda>x. np_clip x 0 255) a;
             b = map_mat (\<lambda>x. np_clip x 0 255) b;
             lab = merge3 l a b
         in map_mat (LAB2BGR lib) lab)
      else if mode = 3 then
        (let hsv = map_mat (BGR2HSV lib) img;
             hsv = map_mat (\<lambda>(h, s, v). (h, s, 255 - v)) hsv
         in map_mat (HSV2BGR lib) hsv)
      else if mode = 4 then
        (let gray = map_mat (BGR2GRAY lib) img;
             inverted = bitwise_not gray
         in GRAY2BGR inverted)
      else if mode = 5 then
        (let gray = map_mat (BGR2GRAY lib) img;
             enhanced_gray = clahe lib 4 (8, 8) gray
         in GRAY2BGR enhanced_gray)
      else if mode = 6 then
        (let gray = map_mat (BGR2GRAY lib) img;
             enhanced_gray = clahe lib 4 (8, 8) gray;
             inverted = bitwise_not enhanced_gray
         in GRAY2BGR inverted)
      else if mode = 7 then
        (let gray = map_mat (BGR2GRAY lib) img;
             thresh = threshold_binary gray 120 255
         in GRAY2BGR thresh)
      else img)"

text \<open>
  The trace enhancement of \<open>update_zoom\<close>: gray conversion, one dilation with a
  2 by 2 kernel of ones, and back to three channels.
\<close>

definition trace_enhancement :: "cv2_lib \<Rightarrow> color_image \<Rightarrow> color_image" where
  "trace_enhancement lib img =
     (let gray = map_mat (BGR2GRAY lib) img;
          dilated = tabulate (rows gray) (cols gray) (dilate lib gray (2, 2))
      in GRAY2BGR dilated)"

text \<open>
  \<open>working_image\<close> of \<open>update_zoom\<close> when it reaches the scaling step: the copy of
  the original image, the contrast mode when the enhanced mode is checked and the mode
  is not 0, then the trace enhancement when it is active.
\<close>

definition working_image :: "cv2_lib \<Rightarrow> viewer \<Rightarrow> color_image \<Rightarrow> color_image" where
  "working_image lib v img =
     (let w = img;
          w = (if enhanced_mode_checkbox v \<and> contrast_mode v \<noteq> 0
               then apply_contrast_mode lib (contrast_mode v) w else w);
          w = (if trace_enhancement_active v then trace_enhancement lib w else w)
      in w)"

text \<open>
  \<open>(int(shape[1] * scale_percent / 100), int(shape[0] * scale_percent / 100))\<close>:
  the product is an integer, the division a float division.
\<close>

definition scaled_size :: "int \<Rightarrow> 'p mat \<Rightarrow> int \<times> int" where
  "scaled_size scale_percent m =
     (py_int (fl64 (of_int (int (cols m) * scale_percent) / 100)),
      py_int (fl64 (of_int (int (rows m) * scale_percent) / 100)))"

text \<open>
  \<open>cv2.resize(img, (width, height), interpolation=cv2.INTER_LINEAR)\<close>: an empty
  target size is an error of the library, a target of the source's own size is a
  copy, and any other target is interpolated.
\<close>

definition resize :: "cv2_lib \<Rightarrow> color_image \<Rightarrow> int \<times> int \<Rightarrow> error + color_image" where
  "resize lib img dsize =
     (let (width, height) = dsize
      in if width \<le> 0 \<or> height \<le> 0 then Inl CvError
         else if width = int (cols img) \<and> height = int (rows img) then Inr img
         else Inr (tabulate (nat height) (nat width)
                     (resize_linear lib img (nat width, nat height))))"

text \<open>
  The image \<open>resized\<close> of \<open>update_zoom\<close>, which the label shows under the overlays
  (after the change of channel order that the display needs). \<open>None\<close> when no image
  is loaded.
\<close>

definition update_zoom_resized :: "cv2_lib \<Rightarrow> viewer \<Rightarrow> error + color_image option" where
  "update_zoom_resized lib v =
     (case original_image v of
        None \<Rightarrow> Inr None
      | Some img \<Rightarrow>
          (let scale_percent = zoom_value v;
               w = working_image lib v img
           in case resize lib w (scaled_size scale_percent w) of
                Inl e \<Rightarrow> Inl e
              | Inr resized \<Rightarrow> Inr (Some resized)))"

text \<open>
  \<open>export_current_view\<close>: the image handed to \<open>cv2.imwrite\<close>. \<open>save_path\<close> is the
  answer of the file dialog, empty when the dialog was cancelled.
\<close>

definition export_current_view ::
  "cv2_lib \<Rightarrow> string \<Rightarrow> viewer \<Rightarrow> error + color_image option" where
  "export_current_view lib save_path v =
     (case original_image v of
        None \<Rightarrow> Inr None
      | Some img \<Rightarrow>
          if save_path = [] then Inr None
          else
            (let scale_percent = zoom_value v
             in case resize lib img (scaled_size scale_percent img) of
                  Inl e \<Rightarrow> Inl e
                | Inr image_to_save \<Rightarrow>
                    Inr (Some (if enhanced_mode_checkbox v \<and> contrast_mode v \<noteq> 0
                               then apply_contrast_mode lib (contrast_mode v) image_to_save
                               else image_to_save))))"

section \<open>Sample inputs\<close>

text \<open>Concrete images, viewers, stores and persisted records used by the examples.\<close>

definition blank_image :: "nat \<Rightarrow> nat \<Rightarrow> color_image" where
  "blank_image r c = \<lparr>rows = r, cols = c, elems = replicate (r * c) (0, 0, 0)\<rparr>"

definition sample_viewer :: "int \<Rightarrow> viewer" where
  "sample_viewer z =
     \<lparr>original_image = Some (blank_image 120 160), zoom_slider = z,
      enhanced_mode_checkbox = False, contrast_mode = 0, trace_enhancement_active = False,
      pixmap_set = True, label_origin = (0, 0), analysis_mode_active = True,
      current_analysis_tool = ''Ruler'', analysis_overlays = [], drawing_overlay = None,
      drawing_start_point = None, objects = []\<rparr>"

definition sample_objects :: heap where
  "sample_objects = [[], [(''note'', PStr ''baseline'')], []]"

definition sample_store :: "overlay option list" where
  "sample_store =
     [Some (NoteOverlay ''20240101_120000_000'' 0 (3, 4) (PStr ''spike'') (PStr ''#00FF00'')),
      Some (RulerOverlay ''20240101_120001_000'' 1 (10, 10) (100, 10) (PStr ''#ff0000'')),
      Some (RegionOfInterestOverlay ''20240101_120002_000'' 2 (1, 2) (5, 6) (PStr ''#0000FF''))]"

text \<open>
  Closing one session and restoring the next: the records written by \<open>closeEvent\<close>
  are read back by \<open>restore_session\<close> into an empty store.
\<close>

definition roundtrip ::
  "(nat \<Rightarrow> string) \<Rightarrow> heap \<Rightarrow> overlay option list \<Rightarrow> error + (overlay option list \<times> heap)" where
  "roundtrip clock h store =
     (case serialize h store of
        Inl e \<Rightarrow> Inl e
      | Inr (ds, h1) \<Rightarrow> restore_session clock [] (map (persist h1) ds))"

definition note_record :: pyval where
  "note_record =
     PDict [(''id'', PStr ''20240101_120000_000''), (''type'', PStr ''Note''),
            (''data'', PDict [(''position'', PSeq [PInt 3, PInt 4]), (''text'', PStr ''spike''),
                              (''color'', PStr ''#00FF00'')])]"

definition ruler_record :: pyval where
  "ruler_record =
     PDict [(''id'', PStr ''20240101_120001_000''), (''type'', PStr ''Ruler''),
            (''data'', PDict [(''start_point'', PSeq [PInt 10, PInt 10]),
                              (''end_point'', PSeq [PInt 100, PInt 10]),
                              (''color'', PStr ''#ff0000''), (''note'', PNone)])]"

definition unknown_record :: pyval where
  "unknown_record =
     PDict [(''id'', PStr ''20240101_120003_000''), (''type'', PStr ''Unknown''),
            (''data'', PDict [])]"

definition no_geometry_record :: pyval where
  "no_geometry_record =
     PDict [(''id'', PStr ''20240101_120004_000''), (''type'', PStr ''Note''),
            (''data'', PDict [(''text'', PStr ''spike''), (''color'', PStr ''#00FF00'')])]"

definition store_view :: viewer where
  "store_view = (sample_viewer 100)\<lparr>analysis_overlays := sample_store, objects := sample_objects\<rparr>"

text \<open>
  An instance of the library parameters for the examples. The gray conversion is the
  documented weighting \<open>Y = 0.299 R + 0.587 G + 0.114 B\<close>, rounded to the nearest
  integer; dilation is the maximum over the kernel window anchored at its centre,
  where positions outside the image do not count. The other operations are left
  unspecified: no example with this instance enables a contrast mode or changes the
  size of the image.
\<close>

definition BGR2GRAY_doc :: "pixel \<Rightarrow> 8 word" where
  "BGR2GRAY_doc p =
     (case p of (b, g, r) \<Rightarrow>
        word_of_nat ((299 * unat r + 587 * unat g + 114 * unat b + 500) div 1000))"

definition dilate_doc :: "gray_image \<Rightarrow> nat \<times> nat \<Rightarrow> nat \<Rightarrow> nat \<Rightarrow> 8 word" where
  "dilate_doc g ksize i j =
     (let (kh, kw) = ksize; ai = kh div 2; aj = kw div 2
      in foldr max
           [elems g ! ((i + di - ai) * cols g + (j + dj - aj)).
              di \<leftarrow> [0..<kh], dj \<leftarrow> [0..<kw],
              ai \<le> i + di, i + di - ai < rows g, aj \<le> j + dj, j + dj - aj < cols g]
           0)"

definition cv2_reference :: cv2_lib where
  "cv2_reference =
     \<lparr>BGR2LAB = undefined, LAB2BGR = undefined, BGR2HSV = undefined, HSV2BGR = undefined,
      BGR2GRAY = BGR2GRAY_doc, clahe_apply = undefined, multiply = undefined,
      dilate = dilate_doc, resize_linear = undefined\<rparr>"

definition blue_pixel :: color_image where
  "blue_pixel = \<lparr>rows = 1, cols = 1, elems = [(255, 0, 0)]\<rparr>"

definition trace_view :: viewer where
  "trace_view = (sample_viewer 100)\<lparr>original_image := Some blue_pixel,
                                     trace_enhancement_active := True\<rparr>"

definition sample_events :: "event list" where
  "sample_events =
     [ToggleAnalysis True ''Note'',
      LeftPress ''20240101_120000_000'' (''spike'', True) (Some ''#123456'') (5, 5),
      ToggleAnalysis False ''Note'',
      ToggleAnalysis True ''ROI'',
      LeftPress ''20240101_120001_000'' ([], False) (Some ''#123456'') (10, 10),
      MouseMove (20, 20),
      LeftRelease ([], False) (30, 40),
      ToggleAnalysis False ''ROI'',
      ToggleAnalysis True ''Ruler'',
      LeftPress ''20240101_120002_000'' ([], False) (Some ''#123456'') (10, 10),
      LeftRelease ([], True) (60, 10)]"

section \<open>The colours of the editing session\<close>

text \<open>
  The colour rule of the overlays created by the handlers: a Note is green, an ROI is
  blue, and a Ruler has the colour of the dialog.
\<close>

fun session_color_ok :: "overlay \<Rightarrow> bool" where
  "session_color_ok (NoteOverlay i a p txt col) = (col = PStr ''#00FF00'')"
| "session_color_ok (RulerOverlay i a p q col) = True"
| "session_color_ok (RegionOfInterestOverlay i a p q col) = (col = PStr ''#0000FF'')"

definition draft_color_ok :: "viewer \<Rightarrow> bool" where
  "draft_color_ok v = (case drawing_overlay v of None \<Rightarrow> True | Some ov \<Rightarrow> session_color_ok ov)"

section \<open>Properties of the float model\<close>

lemma ilog2_le: assumes "0 < q" shows "2 powi (ilog2 q) \<le> q"
proof -
  obtain n d where nd: "quotient_of q = (n, d)" by (cases "quotient_of q")
  have d: "0 < d" using quotient_of_denom_pos[OF nd] .
  have q: "q = of_int n / of_int d" using quotient_of_div[OF nd] .
  have n: "0 < n" using assms d q by (simp add: zero_less_divide_iff)
  let ?k = "bitlen n - bitlen d"
  show ?thesis
  proof (cases "2 powi ?k \<le> q")
    case True then show ?thesis by (simp add: ilog2_def nd)
  next
    case False
    have bn: "2 ^ nat (bitlen n - 1) \<le> n" using bitlen_bounds[OF n] by simp
    have bd: "d < 2 ^ nat (bitlen d)" using bitlen_bounds[OF d] by simp
    have ln: "1 \<le> bitlen n" using n bitlen_eq_zero_iff[of n] bitlen_nonneg[of n] by linarith
    have ld: "0 \<le> bitlen d" by (rule bitlen_nonneg)
    have "(2::rat) powi (?k - 1) = 2 powi (bitlen n - 1) / 2 powi (bitlen d)"
      by (simp add: power_int_diff)
    also have "\<dots> = 2 ^ nat (bitlen n - 1) / 2 ^ nat (bitlen d)"
      using ln ld by (simp add: power_int_def)
    also have "\<dots> \<le> of_int n / 2 ^ nat (bitlen d)"
    proof -
      have "(of_int (2 ^ nat (bitlen n - 1)) :: rat) \<le> of_int n" using bn by (simp only: of_int_le_iff)
      then show ?thesis by (simp add: divide_right_mono)
    qed
    also have "\<dots> \<le> of_int n / of_int d"
    proof -
      have "(of_int d :: rat) \<le> of_int (2 ^ nat (bitlen d))" using bd by (simp flip: of_int_le_iff)
      then show ?thesis using n d by (simp add: frac_le)
    qed
    also have "\<dots> = q" by (simp add: q)
    finally have "2 powi (?k - 1) \<le> q" .
    then show ?thesis using False by (simp add: ilog2_def nd)
  qed
qed


lemma round_half_even_err: "\<bar>of_int (round_half_even t) - t\<bar> \<le> 1 / 2"
  unfolding round_half_even_def Let_def by (auto simp: abs_if) linarith+

lemma round_half_even_int [simp]: "round_half_even (of_int n) = n"
  by (simp add: round_half_even_def)

lemma fl64_rel_error: "\<bar>fl64 q - q\<bar> \<le> \<bar>q\<bar> / 2 ^ 53"
proof (cases "q = 0")
  case True then show ?thesis by (simp add: fl64_def)
next
  case False
  define e where "e = ilog2 \<bar>q\<bar>"
  define ulp :: rat where "ulp = 2 powi (e - 52)"
  define m where "m = round_half_even (\<bar>q\<bar> / ulp)"
  have ulp_pos: "0 < ulp" by (simp add: ulp_def)
  have fl: "fl64 q = sgn q * of_int m * ulp"
    using False by (simp add: fl64_def e_def ulp_def m_def Let_def)
  have "\<bar>of_int m - \<bar>q\<bar> / ulp\<bar> \<le> 1 / 2" unfolding m_def by (rule round_half_even_err)
  then have "\<bar>of_int m - \<bar>q\<bar> / ulp\<bar> * ulp \<le> 1 / 2 * ulp"
    using ulp_pos by (simp only: mult_le_cancel_right_pos)
  moreover have "\<bar>of_int m - \<bar>q\<bar> / ulp\<bar> * ulp = \<bar>of_int m * ulp - \<bar>q\<bar>\<bar>"
  proof -
    have "\<bar>of_int m - \<bar>q\<bar> / ulp\<bar> * ulp = \<bar>(of_int m - \<bar>q\<bar> / ulp) * ulp\<bar>"
      using ulp_pos by (simp add: abs_mult)
    also have "(of_int m - \<bar>q\<bar> / ulp) * ulp = of_int m * ulp - \<bar>q\<bar>"
      using ulp_pos by (simp add: left_diff_distrib)
    finally show ?thesis .
  qed
  ultimately have 1: "\<bar>of_int m * ulp - \<bar>q\<bar>\<bar> \<le> ulp / 2" by simp
  have "fl64 q - q = sgn q * (of_int m * ulp - \<bar>q\<bar>)"
    by (simp add: fl right_diff_distrib sgn_mult_abs mult.assoc)
  then have "\<bar>fl64 q - q\<bar> = \<bar>of_int m * ulp - \<bar>q\<bar>\<bar>"
    using False by (simp add: abs_mult abs_sgn_eq)
  with 1 have 2: "\<bar>fl64 q - q\<bar> \<le> ulp / 2" by simp
  have "2 powi e \<le> \<bar>q\<bar>" unfolding e_def using False by (intro ilog2_le) simp
  moreover have "ulp / 2 = 2 powi e / 2 ^ 53"
    by (simp add: ulp_def power_int_diff)
  ultimately have "ulp / 2 \<le> \<bar>q\<bar> / 2 ^ 53" by (simp add: divide_right_mono)
  with 2 show ?thesis by linarith
qed

lemma fl64_int: assumes "\<bar>n\<bar> < 2 ^ 53" shows "fl64 (of_int n) = of_int n"
proof (cases "n = 0")
  case True then show ?thesis by (simp add: fl64_def)
next
  case False
  define q :: rat where "q = of_int n"
  define e where "e = ilog2 \<bar>q\<bar>"
  have q0: "q \<noteq> 0" using False by (simp add: q_def)
  have "2 powi e \<le> \<bar>q\<bar>" unfolding e_def using q0 by (intro ilog2_le) simp
  also have "\<bar>q\<bar> < 2 ^ 53" using assms unfolding q_def
    by (metis of_int_abs of_int_less_numeral_power_cancel_iff)
  finally have "(2::rat) powi e < 2 powi 53" by simp
  then have e: "e < 53" by (rule power_int_le_imp_less_exp[rotated]) simp_all
  define k where "k = nat (52 - e)"
  have ulp: "(2::rat) powi (e - 52) = 1 / 2 ^ k"
    using e by (simp add: k_def power_int_def field_simps)
  have "\<bar>q\<bar> / (2 powi (e - 52)) = of_int (\<bar>n\<bar> * 2 ^ k)"
    by (simp add: ulp q_def)
  then have "round_half_even (\<bar>q\<bar> / (2 powi (e - 52))) = \<bar>n\<bar> * 2 ^ k"
    by (simp only: round_half_even_int)
  then have "fl64 q = sgn q * of_int (\<bar>n\<bar> * 2 ^ k) * (1 / 2 ^ k)"
    using q0 by (simp add: fl64_def Let_def e_def[symmetric] ulp)
  also have "\<dots> = sgn q * \<bar>q\<bar>" by (simp add: q_def)
  also have "\<dots> = q" by (simp add: sgn_mult_abs)
  finally show ?thesis by (simp add: q_def)
qed

lemma pow53: "(2::rat) ^ 53 = 9007199254740992" "(2::rat) ^ 31 = 2147483648"
  by simp_all

lemma py_int_nonneg: "0 \<le> r \<Longrightarrow> py_int r = \<lfloor>r\<rfloor>"
  by (simp add: py_int_def)

lemma fl64_nonneg: assumes "0 \<le> q" shows "0 \<le> fl64 q"
proof -
  have "\<bar>fl64 q - q\<bar> \<le> \<bar>q\<bar> / 2 ^ 53" by (rule fl64_rel_error)
  with assms show ?thesis unfolding pow53 by linarith
qed

lemma fl64_bounds:
  assumes "0 \<le> q" shows "q - q / 2 ^ 53 \<le> fl64 q" and "fl64 q \<le> q + q / 2 ^ 53"
  using fl64_rel_error[of q] assms unfolding pow53 by linarith+

lemma roundtrip_above_100:
  fixes x z :: int
  assumes z: "101 \<le> z" and x0: "0 \<le> x" and x1: "x < 2 ^ 31"
  defines "zf \<equiv> fl64 (of_int z / 100)"
  defines "d \<equiv> py_int (fl64 (of_int x * zf))"
  defines "b \<equiv> py_int (fl64 (of_int d / zf))"
  shows "0 \<le> b \<and> x - 1 \<le> b \<and> b \<le> x"
proof -
  define c :: rat where "c = of_int z / 100"
  define X :: rat where "X = of_int x"
  define s where "s = X * zf"
  define p where "p = fl64 s"
  define D :: rat where "D = of_int d"
  define t where "t = D / zf"
  define r where "r = fl64 t"
  have c: "101 / 100 \<le> c" using z by (simp add: c_def)
  have "c - c / 2 ^ 53 \<le> zf" unfolding zf_def c_def[symmetric] using c by (intro fl64_bounds) simp
  with c have zf1: "1009 / 1000 \<le> zf" unfolding pow53 by linarith
  then have zf0: "0 < zf" by simp
  have X0: "0 \<le> X" and X1: "X < 2 ^ 31" using x0 x1 by (simp_all add: X_def flip: of_int_less_iff)
  have s0: "0 \<le> s" using X0 zf0 by (simp add: s_def)
  have ps: "s - s / 2 ^ 53 \<le> p" "p \<le> s + s / 2 ^ 53" unfolding p_def using s0 by (rule fl64_bounds)+
  have p0: "0 \<le> p" unfolding p_def using s0 by (rule fl64_nonneg)
  have d_eq: "d = \<lfloor>p\<rfloor>" unfolding d_def p_def s_def X_def using p0[unfolded p_def s_def X_def] by (simp add: py_int_nonneg)
  have D1: "D \<le> p" and D2: "p < D + 1" unfolding D_def d_eq by linarith+
  have D0: "0 \<le> D" unfolding D_def d_eq using p0 by simp
  have sz: "s / zf = X" using zf0 by (simp add: s_def)
  have inv: "1 / zf \<le> 1000 / 1009" using zf1 zf0 by (simp add: field_simps)
  have t0: "0 \<le> t" using D0 zf0 by (simp add: t_def)
  have Dup: "D \<le> s + s / 2 ^ 53" using D1 ps unfolding pow53 by linarith
  have "D / zf \<le> (s + s / 2 ^ 53) / zf"
    by (rule divide_right_mono[OF Dup less_imp_le[OF zf0]])
  also have "\<dots> = X + X / 2 ^ 53" using sz by (simp add: add_divide_distrib)
  finally have t_up: "t \<le> X + X / 2 ^ 53" by (simp add: t_def)
  have Dlo: "s - s / 2 ^ 53 - 1 < D" using D2 ps unfolding pow53 by linarith
  have "(s - s / 2 ^ 53 - 1) / zf < D / zf"
    by (rule divide_strict_right_mono[OF Dlo zf0])
  moreover have "(s - s / 2 ^ 53 - 1) / zf = X - X / 2 ^ 53 - 1 / zf"
    using sz by (simp add: diff_divide_distrib)
  ultimately have t_lo: "X - X / 2 ^ 53 - 1000 / 1009 < t" using inv unfolding t_def pow53 by linarith
  have rt: "t - t / 2 ^ 53 \<le> r" "r \<le> t + t / 2 ^ 53" unfolding r_def using t0 by (rule fl64_bounds)+
  have r0: "0 \<le> r" unfolding r_def using t0 by (rule fl64_nonneg)
  have r_up: "r < X + 1" using rt t0 t_up X0 X1 unfolding pow53 by linarith
  have r_lo: "X - 1 \<le> r" using rt t0 t_lo X0 X1 unfolding pow53 by linarith
  have b_eq: "b = \<lfloor>r\<rfloor>" unfolding b_def r_def t_def D_def using r0[unfolded r_def t_def D_def] by (simp add: py_int_nonneg)
  have "0 \<le> b" unfolding b_eq using r0 by simp
  moreover have "x - 1 \<le> b" unfolding b_eq using r_lo by (simp add: le_floor_iff X_def)
  moreover have "b \<le> x" unfolding b_eq using r_up by (simp add: floor_le_iff X_def)
  ultimately show ?thesis by simp
qed

lemma fl64_numeral [simp]: "\<bar>numeral k :: int\<bar> < 2 ^ 53 \<Longrightarrow> fl64 (numeral k) = numeral k"
  using fl64_int[of "numeral k"] by simp

lemma fl64_0 [simp]: "fl64 0 = 0" by (simp add: fl64_def)
lemma fl64_1 [simp]: "fl64 1 = 1" using fl64_int[of 1] by simp

lemma py_int_of_int [simp]: "py_int (of_int n) = n"
  by (simp add: py_int_def)

lemma roundtrip_at_100:
  assumes "\<bar>x\<bar> < 2 ^ 53"
  shows "py_int (fl64 (of_int (py_int (fl64 (of_int x * fl64 (of_int 100 / 100)))) / fl64 (of_int 100 / 100))) = x"
  using assms by (simp add: fl64_int)

lemma roundtrip_1d:
  fixes x z :: int
  assumes z: "100 \<le> z" and x0: "0 \<le> x" and x1: "x < 2 ^ 31"
  defines "zf \<equiv> fl64 (of_int z / 100)"
  shows "0 \<le> py_int (fl64 (of_int (py_int (fl64 (of_int x * zf))) / zf)) \<and>
         x - 1 \<le> py_int (fl64 (of_int (py_int (fl64 (of_int x * zf))) / zf)) \<and>
         py_int (fl64 (of_int (py_int (fl64 (of_int x * zf))) / zf)) \<le> x"
proof (cases "z = 100")
  case True
  have "\<bar>x\<bar> < 2 ^ 53" using x0 x1 by simp
  from roundtrip_at_100[OF this] show ?thesis using x0 unfolding zf_def True by simp
next
  case False
  with z have "101 \<le> z" by simp
  from roundtrip_above_100[OF this x0 x1] show ?thesis unfolding zf_def by simp
qed

lemma py_int_numeral [simp]: "py_int (numeral k) = numeral k" "py_int 0 = 0" "py_int 1 = 1"
  by (simp_all add: py_int_def)

lemma fl64_tenth: "fl64 (1 / 10) = 3602879701896397 / 36028797018963968"
  by code_simp

lemma zoom_factor_10: "zoom_factor (sample_viewer 10) = 3602879701896397 / 36028797018963968"
  by (simp add: zoom_factor_def zoom_value_def sample_viewer_def fl64_tenth)

lemma scaled_point_10: "scaled_point (3602879701896397 / 36028797018963968) (5, 5) = (0, 0)"
  by code_simp


section \<open>Evaluation rules\<close>

lemmas dict_simps = dict_update_def dict_set_def dict_get_def point_tuple_def
lemmas from_dict_simps = from_dict_def NoteOverlay_from_dict_def RulerOverlay_from_dict_def
  RegionOfInterestOverlay_from_dict_def some_overlay_def data_dict_def py_get_def point_of_def
  py_index_def QPoint_def alloc_def init_data_def new_NoteOverlay_def new_RulerOverlay_def
  new_RegionOfInterestOverlay_def

lemma map_of_dict_set: "map_of (dict_set d k v) = (map_of d)(k \<mapsto> v)"
  by (simp add: dict_set_def update_conv')


section \<open>Properties of the handlers\<close>

lemma trace_enhancement_blue:
  "trace_enhancement lib blue_pixel =
     \<lparr>rows = 1, cols = 1,
      elems = [(dilate lib \<lparr>rows = 1, cols = 1, elems = [BGR2GRAY lib (255, 0, 0)]\<rparr> (2, 2) 0 0,
                dilate lib \<lparr>rows = 1, cols = 1, elems = [BGR2GRAY lib (255, 0, 0)]\<rparr> (2, 2) 0 0,
                dilate lib \<lparr>rows = 1, cols = 1, elems = [BGR2GRAY lib (255, 0, 0)]\<rparr> (2, 2) 0 0)]\<rparr>"
  by (simp add: trace_enhancement_def blue_pixel_def map_mat_def tabulate_def GRAY2BGR_def Let_def)

lemma get_image_coordinates_cong:
  assumes "pixmap_set v' = pixmap_set v" "original_image v' = original_image v"
    "zoom_slider v' = zoom_slider v" "label_origin v' = label_origin v"
  shows "get_image_coordinates v' p = get_image_coordinates v p"
proof -
  have zf: "zoom_factor v' = zoom_factor v" using assms by (simp add: zoom_factor_def zoom_value_def)
  show ?thesis unfolding get_image_coordinates_def mapFrom_def zf assms by (rule refl)
qed




lemma draft_color_ok_update_zoom [simp]: "draft_color_ok (update_zoom v) = draft_color_ok v"
  by (simp add: update_zoom_def draft_color_ok_def)

lemma drawing_overlay_update_zoom [simp]: "drawing_overlay (update_zoom v) = drawing_overlay v"
  by (simp add: update_zoom_def)

lemma analysis_overlays_update_zoom [simp]: "analysis_overlays (update_zoom v) = analysis_overlays v"
  by (simp add: update_zoom_def)

lemma session_color_ok_set_free_end [simp]: "session_color_ok (set_free_end ov p) = session_color_ok ov"
  by (cases ov) simp_all

lemma step_appends:
  assumes "draft_color_ok v"
  shows "\<exists>new. analysis_overlays (step v e) = analysis_overlays v @ map Some new \<and>
           list_all session_color_ok new \<and> draft_color_ok (step v e)"
proof (cases e)
  case (LeftPress now td cd p)
  obtain tx ok where td: "td = (tx, ok)" by (cases td)
  show ?thesis
  proof (cases "get_image_coordinates v p")
    case None
    with assms LeftPress show ?thesis
      by (intro exI[of _ "[]"]) (simp add: handle_analysis_mouse_press_def)
  next
    case (Some pos)
    show ?thesis
    proof (cases "analysis_mode_active v \<and> current_analysis_tool v = ''Note'' \<and> ok \<and> tx \<noteq> []")
      case True
      then show ?thesis using assms LeftPress Some td
        by (intro exI[of _ "[NoteOverlay now (length (objects v)) pos (PStr tx) (PStr ''#00FF00'')]"])
           (simp add: handle_analysis_mouse_press_def new_NoteOverlay_def init_data_def alloc_def
             draft_color_ok_def)
    next
      case False
      then show ?thesis using assms LeftPress Some td
        by (intro exI[of _ "[]"])
           (auto simp add: handle_analysis_mouse_press_def new_RulerOverlay_def
             new_RegionOfInterestOverlay_def init_data_def alloc_def draft_color_ok_def
             split: option.splits)
    qed
  qed
next
  case (MouseMove p)
  with assms show ?thesis
    by (intro exI[of _ "[]"])
       (auto simp add: handle_analysis_mouse_move_def draft_color_ok_def split: option.splits)
next
  case (LeftRelease nd p)
  obtain nt ok where nd: "nd = (nt, ok)" by (cases nd)
  show ?thesis
  proof (cases "analysis_mode_active v \<and> drawing v \<and> get_image_coordinates v p \<noteq> None")
    case False
    then consider "\<not> analysis_mode_active v" | "\<not> drawing v" | "get_image_coordinates v p = None"
      by blast
    then show ?thesis
    proof cases
      case 1
      with assms LeftRelease show ?thesis by (intro exI[of _ "[]"]) simp
    next
      case 2
      with assms LeftRelease show ?thesis
        by (intro exI[of _ "[]"]) (simp add: handle_analysis_mouse_release_def)
    next
      case 3
      with assms LeftRelease show ?thesis
        by (intro exI[of _ "[]"]) (simp add: handle_analysis_mouse_release_def)
    qed
  next
    case True
    then obtain pos where pos: "get_image_coordinates v p = Some pos" by auto
    from True obtain ov where ov: "drawing_overlay v = Some ov" by (auto simp add: drawing_def)
    with assms have ok_ov: "session_color_ok ov" by (simp add: draft_color_ok_def)
    show ?thesis
    proof (cases ov)
      case (NoteOverlay i a q tx col)
      with True pos ov LeftRelease nd show ?thesis
        by (intro exI[of _ "[]"])
           (simp add: handle_analysis_mouse_release_def draft_color_ok_def)
    next
      case (RulerOverlay i a q1 q2 col)
      with True pos ov LeftRelease nd show ?thesis
        by (intro exI[of _ "[RulerOverlay i a q1 pos col]"])
           (simp add: handle_analysis_mouse_release_def draft_color_ok_def)
    next
      case (RegionOfInterestOverlay i a q1 q2 col)
      with True pos ov ok_ov LeftRelease nd show ?thesis
        by (intro exI[of _ "[RegionOfInterestOverlay i a q1 pos col]"])
           (simp add: handle_analysis_mouse_release_def draft_color_ok_def)
    qed
  qed
next
  case RightPress
  with assms show ?thesis
    by (intro exI[of _ "[]"]) (simp add: cancel_drawing_def draft_color_ok_def)
next
  case (ToggleAnalysis checked tool)
  with assms show ?thesis
    by (intro exI[of _ "[]"]) (simp add: toggle_analysis_mode_def draft_color_ok_def)
qed

lemma run_appends:
  assumes "draft_color_ok v"
  shows "\<exists>new. analysis_overlays (run v evs) = analysis_overlays v @ map Some new \<and>
           list_all session_color_ok new \<and> draft_color_ok (run v evs)"
  using assms
proof (induction evs arbitrary: v)
  case Nil
  then show ?case by (intro exI[of _ "[]"]) (simp add: run_def)
next
  case (Cons e evs)
  from step_appends[OF Cons.prems, of e] obtain n1 where
    1: "analysis_overlays (step v e) = analysis_overlays v @ map Some n1"
       "list_all session_color_ok n1" "draft_color_ok (step v e)" by blast
  from Cons.IH[OF 1(3)] obtain n2 where
    2: "analysis_overlays (run (step v e) evs) = analysis_overlays (step v e) @ map Some n2"
       "list_all session_color_ok n2" "draft_color_ok (run (step v e) evs)" by blast
  have r: "run v (e # evs) = run (step v e) evs" by (simp add: run_def)
  show ?case unfolding r using 1 2 by (intro exI[of _ "n1 @ n2"]) simp
qed

lemmas handler_simps = handle_analysis_mouse_press_def handle_analysis_mouse_move_def
  handle_analysis_mouse_release_def cancel_drawing_def toggle_analysis_mode_def update_zoom_def
  drawing_def qpoint_bool_def new_NoteOverlay_def new_RulerOverlay_def
  new_RegionOfInterestOverlay_def init_data_def alloc_def get_image_coordinates_def
  zoom_factor_def zoom_value_def mapFrom_def

lemma sample_run:
  "analysis_overlays (run (sample_viewer 100) sample_events) =
     [Some (NoteOverlay ''20240101_120000_000'' 0 (5, 5) (PStr ''spike'') (PStr ''#00FF00'')),
      Some (RegionOfInterestOverlay ''20240101_120001_000'' 1 (10, 10) (30, 40) (PStr ''#0000FF'')),
      Some (RulerOverlay ''20240101_120002_000'' 2 (10, 10) (60, 10) (PStr ''#123456''))]"
  by (simp add: run_def sample_events_def sample_viewer_def blank_image_def handler_simps)

section \<open>Claims\<close>

text \<open>
  Claim C1. The exported image is not the image of the preview. With the trace
  enhancement active (and no contrast mode), \<open>update_zoom\<close> shows the gray, dilated
  image, while \<open>export_current_view\<close> has no trace enhancement step and writes the
  original pixels. For the image of one blue pixel at zoom 100, whatever values the
  library computes: the preview has three equal channels, the export has not.
\<close>

theorem export_omits_trace_enhancement:
  "update_zoom_resized lib trace_view = Inr (Some (trace_enhancement lib blue_pixel)) \<and>
   export_current_view lib ''exported_view.png'' trace_view = Inr (Some blue_pixel) \<and>
   trace_enhancement lib blue_pixel \<noteq> blue_pixel"
proof -
  have 1: "zoom_value trace_view = 100" by (simp add: trace_view_def sample_viewer_def zoom_value_def)
  have 2: "working_image lib trace_view blue_pixel = trace_enhancement lib blue_pixel"
    by (simp add: working_image_def trace_view_def sample_viewer_def)
  have 3: "scaled_size 100 (trace_enhancement lib blue_pixel) = (1, 1)"
    unfolding trace_enhancement_blue by (simp add: scaled_size_def)
  have 4: "scaled_size 100 blue_pixel = (1, 1)"
    by (simp add: scaled_size_def blue_pixel_def)
  have 5: "resize lib (trace_enhancement lib blue_pixel) (1, 1) = Inr (trace_enhancement lib blue_pixel)"
    unfolding trace_enhancement_blue by (simp add: resize_def)
  have 6: "resize lib blue_pixel (1, 1) = Inr blue_pixel"
    by (simp add: resize_def blue_pixel_def)
  have 7: "original_image trace_view = Some blue_pixel" "\<not> enhanced_mode_checkbox trace_view"
    by (simp_all add: trace_view_def sample_viewer_def)
  have 8: "trace_enhancement lib blue_pixel \<noteq> blue_pixel"
    unfolding trace_enhancement_blue by (auto simp add: blue_pixel_def)
  show ?thesis
    using 8 by (simp add: update_zoom_resized_def export_current_view_def 1 2 3 4 5 6 7)
qed

text \<open>
  Claim C2. The round trip of a store with one overlay of each class keeps every field
  of the overlays but not their ids: \<open>from_dict\<close> builds each overlay with the class
  constructor, which stamps a new id from the clock, and never reads the \<open>id\<close> entry
  of the record. This theorem evaluates the round trip on the sample store: position,
  text, colour and data come back, and the ids are the times of the restore. (The
  restore of the simple annotations in the same function does copy the saved id.)
\<close>

theorem roundtrip_regenerates_ids:
  "roundtrip clock sample_objects sample_store =
     Inr ([Some (NoteOverlay (clock 0) 0 (3, 4) (PStr ''spike'') (PStr ''#00FF00'')),
           Some (RulerOverlay (clock 1) 1 (10, 10) (100, 10) (PStr ''#ff0000'')),
           Some (RegionOfInterestOverlay (clock 2) 2 (1, 2) (5, 6) (PStr ''#0000FF''))],
          [[(''position'', PSeq [PInt 3, PInt 4]), (''text'', PStr ''spike''),
            (''color'', PStr ''#00FF00'')],
           [(''note'', PStr ''baseline''), (''start_point'', PSeq [PInt 10, PInt 10]),
            (''end_point'', PSeq [PInt 100, PInt 10]), (''color'', PStr ''#ff0000'')],
           [(''top_left'', PSeq [PInt 1, PInt 2]), (''bottom_right'', PSeq [PInt 5, PInt 6]),
            (''color'', PStr ''#0000FF'')]])"
  by (simp add: roundtrip_def sample_objects_def sample_store_def to_dict_def base_to_dict_def
      persist_def restore_session_def dict_simps from_dict_simps numeral_2_eq_2)

text \<open>
  Claim C3. Loading a record of unknown type beside two valid records does not skip
  it: \<open>from_dict\<close> returns \<open>None\<close> and the loop of \<open>restore_session\<close> appends that
  \<open>None\<close>, so the store has three entries. A Note record without a position raises
  \<open>TypeError\<close> in \<open>from_dict\<close>, which ends the whole load.
\<close>

theorem restore_keeps_unknown_as_None:
  "restore_session clock [] [note_record, unknown_record, ruler_record] =
     Inr ([Some (NoteOverlay (clock 0) 0 (3, 4) (PStr ''spike'') (PStr ''#00FF00'')),
           None,
           Some (RulerOverlay (clock 2) 1 (10, 10) (100, 10) (PStr ''#ff0000''))],
          [[(''position'', PSeq [PInt 3, PInt 4]), (''text'', PStr ''spike''),
            (''color'', PStr ''#00FF00'')],
           [(''start_point'', PSeq [PInt 10, PInt 10]), (''end_point'', PSeq [PInt 100, PInt 10]),
            (''color'', PStr ''#ff0000''), (''note'', PNone)]])
   \<and> restore_session clock [] [note_record, no_geometry_record, ruler_record] = Inl TypeError"
  by (simp add: restore_session_def note_record_def unknown_record_def ruler_record_def
      no_geometry_record_def dict_simps from_dict_simps numeral_2_eq_2)

text \<open>
  Claim C4 (as amended). For every zoom value from 100 to 400 and every point of the
  image, painting the point (multiplication by the zoom factor, truncated) and
  converting the painted position back (division by the zoom factor, truncated) gives
  a point of the image whose coordinates are those of the original or one less. The
  arithmetic is that of Python floats.
\<close>

theorem roundtrip_within_one_pixel:
  assumes zoom: "100 \<le> zoom_slider v" "zoom_slider v \<le> 400"
    and pix: "pixmap_set v"
    and img: "original_image v = Some img"
    and size: "int (cols img) \<le> 2 ^ 31" "int (rows img) \<le> 2 ^ 31"
    and P: "0 \<le> x" "x < int (cols img)" "0 \<le> y" "y < int (rows img)"
  shows "\<exists>ix iy. get_image_coordinates v (mapTo v (scaled_point (zoom_factor v) (x, y))) = Some (ix, iy)
           \<and> x - 1 \<le> ix \<and> ix \<le> x \<and> y - 1 \<le> iy \<and> iy \<le> y"
proof -
  have zv: "zoom_value v = zoom_slider v" using zoom by (simp add: zoom_value_def)
  have z: "100 \<le> zoom_value v" using zoom zv by simp
  have x1: "x < 2 ^ 31" and y1: "y < 2 ^ 31" using P size by linarith+
  note X = roundtrip_1d[OF z P(1) x1] and Y = roundtrip_1d[OF z P(3) y1]
  have map_inv: "mapFrom v (mapTo v q) = q" for q by (simp add: mapFrom_def mapTo_def)
  show ?thesis
    using X Y P pix img
    by (simp add: get_image_coordinates_def map_inv scaled_point_def zoom_factor_def Let_def)
qed

theorem roundtrip_within_one_pixel_witness:
  "100 \<le> zoom_slider (sample_viewer 250) \<and> zoom_slider (sample_viewer 250) \<le> 400 \<and>
   pixmap_set (sample_viewer 250) \<and>
   original_image (sample_viewer 250) = Some (blank_image 120 160) \<and>
   (\<exists>ix iy. get_image_coordinates (sample_viewer 250)
        (mapTo (sample_viewer 250) (scaled_point (zoom_factor (sample_viewer 250)) (123, 77)))
          = Some (ix, iy)
      \<and> 123 - 1 \<le> ix \<and> ix \<le> 123 \<and> 77 - 1 \<le> iy \<and> iy \<le> 77)"
proof -
  have "\<exists>ix iy. get_image_coordinates (sample_viewer 250)
          (mapTo (sample_viewer 250) (scaled_point (zoom_factor (sample_viewer 250)) (123, 77)))
            = Some (ix, iy)
        \<and> 123 - 1 \<le> ix \<and> ix \<le> 123 \<and> 77 - 1 \<le> iy \<and> iy \<le> 77"
    by (rule roundtrip_within_one_pixel[where img = "blank_image 120 160"])
       (simp_all add: sample_viewer_def blank_image_def)
  then show ?thesis by (simp add: sample_viewer_def)
qed

text \<open>
  At zoom 10 the claim as stated fails: the image point (5, 5) is painted at (0, 0),
  which converts back to (0, 0), five pixels away.
\<close>

theorem roundtrip_drift_counterexample:
  "get_image_coordinates (sample_viewer 10)
     (mapTo (sample_viewer 10) (scaled_point (zoom_factor (sample_viewer 10)) (5, 5))) = Some (0, 0)"
  unfolding zoom_factor_10 scaled_point_10
  by (simp add: get_image_coordinates_def mapFrom_def mapTo_def sample_viewer_def blank_image_def
      py_int_def)





text \<open>
  Claim C7 (as amended). For an index outside the store, \<open>delete_overlay\<close> does
  nothing and raises nothing: it returns normally and the viewer, the store included,
  is unchanged.
\<close>

theorem delete_out_of_range_ignored:
  assumes "index < 0 \<or> int (length (analysis_overlays v)) \<le> index"
  shows "delete_overlay v index = Inr v"
  using assms by (auto simp add: delete_overlay_def)

theorem delete_out_of_range_ignored_witness:
  "((5::int) < 0 \<or> int (length (analysis_overlays store_view)) \<le> 5) \<and>
   delete_overlay store_view 5 = Inr store_view \<and> length (analysis_overlays store_view) = 3"
proof -
  have h: "(5::int) < 0 \<or> int (length (analysis_overlays store_view)) \<le> 5"
    by (simp add: store_view_def sample_store_def)
  from h delete_out_of_range_ignored[OF h] show ?thesis
    by (simp add: store_view_def sample_store_def)
qed

text \<open>
  The claim as stated expects a failure: deleting index 5 from the store of size 3
  returns normally.
\<close>

theorem delete_out_of_range_counterexample:
  "delete_overlay store_view 5 = Inr store_view \<and> delete_overlay store_view 5 \<noteq> Inl IndexError"
  by (simp add: delete_overlay_def store_view_def sample_store_def)

text \<open>
  Claim C8 (as amended). When the enhanced mode is off or the contrast mode is 0, and
  the trace enhancement is not active, the image handed to the scaling step is the
  original image.
\<close>

theorem filter_identity_without_trace:
  assumes "\<not> (enhanced_mode_checkbox v \<and> contrast_mode v \<noteq> 0)"
    and "\<not> trace_enhancement_active v"
  shows "working_image lib v img = img"
  using assms by (auto simp add: working_image_def)

theorem filter_identity_without_trace_witness:
  "\<not> (enhanced_mode_checkbox (sample_viewer 100) \<and> contrast_mode (sample_viewer 100) \<noteq> 0) \<and>
   \<not> trace_enhancement_active (sample_viewer 100) \<and>
   working_image cv2_reference (sample_viewer 100) blue_pixel = blue_pixel"
proof -
  have a: "\<not> (enhanced_mode_checkbox (sample_viewer 100) \<and> contrast_mode (sample_viewer 100) \<noteq> 0)"
    and b: "\<not> trace_enhancement_active (sample_viewer 100)"
    by (simp_all add: sample_viewer_def)
  from a b filter_identity_without_trace[OF a b] show ?thesis by simp
qed

text \<open>
  With the trace enhancement active the claim as stated fails: in mode 0 with the
  enhanced mode off, the blue pixel reaches the scaling step as the gray pixel
  (29, 29, 29).
\<close>

theorem filter_identity_counterexample:
  "\<not> enhanced_mode_checkbox trace_view \<and> contrast_mode trace_view = 0 \<and>
   working_image cv2_reference trace_view blue_pixel =
     \<lparr>rows = 1, cols = 1, elems = [(29, 29, 29)]\<rparr> \<and>
   working_image cv2_reference trace_view blue_pixel \<noteq> blue_pixel"
proof -
  have g: "BGR2GRAY_doc (255, 0, 0) = 29" by (simp add: BGR2GRAY_doc_def)
  have d: "dilate_doc \<lparr>rows = Suc 0, cols = Suc 0, elems = [x]\<rparr> (2, 2) 0 0 = x" for x
    by (simp add: dilate_doc_def numeral_2_eq_2)
  have w: "working_image cv2_reference trace_view blue_pixel = trace_enhancement cv2_reference blue_pixel"
    by (simp add: working_image_def trace_view_def sample_viewer_def)
  show ?thesis unfolding w trace_enhancement_blue
    by (simp add: cv2_reference_def g d blue_pixel_def trace_view_def sample_viewer_def)
qed

text \<open>
  Claim C9. \<open>to_dict\<close> writes into the overlay it serializes: the \<open>data\<close> entry of
  the returned record is the address of the overlay's own dictionary, and after the
  call that dictionary holds the geometry and the colour of the overlay (and, for a
  Ruler, the key \<open>note\<close>).
\<close>

theorem to_dict_writes_into_overlay_data:
  assumes "data ov < length h"
  shows "rec_data (fst (to_dict h ov)) = data ov \<and>
         length (snd (to_dict h ov)) = length h \<and>
         (case ov of
            NoteOverlay i a pos txt col \<Rightarrow>
              map_of (snd (to_dict h ov) ! a) ''position'' = Some (point_tuple pos) \<and>
              map_of (snd (to_dict h ov) ! a) ''text'' = Some txt \<and>
              map_of (snd (to_dict h ov) ! a) ''color'' = Some col
          | RulerOverlay i a p q col \<Rightarrow>
              map_of (snd (to_dict h ov) ! a) ''start_point'' = Some (point_tuple p) \<and>
              map_of (snd (to_dict h ov) ! a) ''end_point'' = Some (point_tuple q) \<and>
              map_of (snd (to_dict h ov) ! a) ''color'' = Some col \<and>
              map_of (snd (to_dict h ov) ! a) ''note'' = Some (dict_get (h ! a) ''note'')
          | RegionOfInterestOverlay i a p q col \<Rightarrow>
              map_of (snd (to_dict h ov) ! a) ''top_left'' = Some (point_tuple p) \<and>
              map_of (snd (to_dict h ov) ! a) ''bottom_right'' = Some (point_tuple q) \<and>
              map_of (snd (to_dict h ov) ! a) ''color'' = Some col)"
  using assms
  by (cases ov) (simp_all add: to_dict_def base_to_dict_def dict_update_def map_of_dict_set)

theorem to_dict_writes_into_overlay_data_witness:
  "data (NoteOverlay ''20240101_120000_000'' 0 (3, 4) (PStr ''spike'') (PStr ''#00FF00'')) < length [[] :: pydict]
   \<and> rec_data (fst (to_dict [[]] (NoteOverlay ''20240101_120000_000'' 0 (3, 4) (PStr ''spike'') (PStr ''#00FF00'')))) = 0
   \<and> map_of (snd (to_dict [[]] (NoteOverlay ''20240101_120000_000'' 0 (3, 4) (PStr ''spike'') (PStr ''#00FF00''))) ! 0) ''position'' = Some (PSeq [PInt 3, PInt 4])
   \<and> snd (to_dict [[]] (NoteOverlay ''20240101_120000_000'' 0 (3, 4) (PStr ''spike'') (PStr ''#00FF00''))) \<noteq> [[]]"
proof -
  have h: "data (NoteOverlay ''20240101_120000_000'' 0 (3, 4) (PStr ''spike'') (PStr ''#00FF00'')) < length [[] :: pydict]"
    by simp
  have "snd (to_dict [[]] (NoteOverlay ''20240101_120000_000'' 0 (3, 4) (PStr ''spike'') (PStr ''#00FF00''))) \<noteq> [[]]"
    by (simp add: to_dict_def base_to_dict_def dict_update_def dict_set_def)
  with h to_dict_writes_into_overlay_data[OF h] show ?thesis
    by (simp add: point_tuple_def)
qed

text \<open>
  Claim C10. Starting without a draft, every overlay that a sequence of session
  events appends to the store obeys the colour rule: each Note has the colour
  \<open>#00FF00\<close> and each ROI the colour \<open>#0000FF\<close>, whatever the dialogs answered; only
  a Ruler has the colour chosen in the dialog: a press with the Ruler tool at a
  position of the image starts a draft with the colour \<open>c\<close> of the dialog.
\<close>

theorem session_colors_fixed:
  assumes "drawing_overlay v = None"
  shows "(\<exists>new. analysis_overlays (run v evs) = analysis_overlays v @ map Some new \<and>
            list_all session_color_ok new) \<and>
         drawing_overlay
           (handle_analysis_mouse_press now text_dialog (Some c)
              (w\<lparr>current_analysis_tool := ''Ruler''\<rparr>) p) =
           (case get_image_coordinates w p of
              None \<Rightarrow> drawing_overlay w
            | Some pos \<Rightarrow> Some (RulerOverlay now (length (objects w)) pos pos (PStr c)))"
proof -
  have "draft_color_ok v" using assms by (simp add: draft_color_ok_def)
  from run_appends[OF this, of evs]
  have 1: "\<exists>new. analysis_overlays (run v evs) = analysis_overlays v @ map Some new \<and>
             list_all session_color_ok new" by blast
  have g: "get_image_coordinates (w\<lparr>current_analysis_tool := ''Ruler''\<rparr>) p =
           get_image_coordinates w p"
    by (rule get_image_coordinates_cong) simp_all
  have 2: "drawing_overlay
           (handle_analysis_mouse_press now text_dialog (Some c)
              (w\<lparr>current_analysis_tool := ''Ruler''\<rparr>) p) =
           (case get_image_coordinates w p of
              None \<Rightarrow> drawing_overlay w
            | Some pos \<Rightarrow> Some (RulerOverlay now (length (objects w)) pos pos (PStr c)))"
    unfolding handle_analysis_mouse_press_def g
    by (simp add: new_RulerOverlay_def init_data_def alloc_def split: option.split)
  from 1 2 show ?thesis by (rule conjI)
qed

theorem session_colors_fixed_witness:
  "drawing_overlay (sample_viewer 100) = None \<and>
   analysis_overlays (run (sample_viewer 100) sample_events) =
     [Some (NoteOverlay ''20240101_120000_000'' 0 (5, 5) (PStr ''spike'') (PStr ''#00FF00'')),
      Some (RegionOfInterestOverlay ''20240101_120001_000'' 1 (10, 10) (30, 40) (PStr ''#0000FF'')),
      Some (RulerOverlay ''20240101_120002_000'' 2 (10, 10) (60, 10) (PStr ''#123456''))] \<and>
   (\<exists>new. analysis_overlays (run (sample_viewer 100) sample_events) =
            analysis_overlays (sample_viewer 100) @ map Some new \<and>
          list_all session_color_ok new)"
proof -
  have d: "drawing_overlay (sample_viewer 100) = None" by (simp add: sample_viewer_def)
  from session_colors_fixed[OF d, of sample_events]
  have "\<exists>new. analysis_overlays (run (sample_viewer 100) sample_events) =
            analysis_overlays (sample_viewer 100) @ map Some new \<and>
          list_all session_color_ok new" by (rule conjunct1)
  with d sample_run show ?thesis by simp
qed

end
